theory Spec2Isabelle
  imports Main "HOL-Library.AList" "HOL-Library.Multiset"
begin

section \<open>Python strings\<close>

text \<open>
  Strings are byte lists. \<open>str.lower\<close> is modelled on the ASCII letters (other bytes are
  left alone), \<open>str.strip\<close> removes the ASCII characters for which \<open>str.isspace\<close>
  holds, and \<open>str.split(",")\<close> cuts at every comma (the empty string gives one empty
  piece).
\<close>

definition lower_char :: "char \<Rightarrow> char" where
  "lower_char c =
     (case map_of (zip ''ABCDEFGHIJKLMNOPQRSTUVWXYZ'' ''abcdefghijklmnopqrstuvwxyz'') c of
        Some d \<Rightarrow> d
      | None \<Rightarrow> c)"

definition upper_char :: "char \<Rightarrow> char" where
  "upper_char c =
     (case map_of (zip ''abcdefghijklmnopqrstuvwxyz'' ''ABCDEFGHIJKLMNOPQRSTUVWXYZ'') c of
        Some d \<Rightarrow> d
      | None \<Rightarrow> c)"

definition lower :: "string \<Rightarrow> string" where
  "lower s = map lower_char s"

definition upper :: "string \<Rightarrow> string" where
  "upper s = map upper_char s"


definition isspace :: "char \<Rightarrow> bool" where
  "isspace c = (c \<in> set [CHR '' '', CHR 0x09, CHR 0x0A, CHR 0x0B, CHR 0x0C, CHR 0x0D,
                          CHR 0x1C, CHR 0x1D, CHR 0x1E, CHR 0x1F])"

definition strip :: "string \<Rightarrow> string" where
  "strip s = rev (dropWhile isspace (rev (dropWhile isspace s)))"

fun split_comma :: "string \<Rightarrow> string list" where
  "split_comma [] = [[]]"
| "split_comma (c # cs) =
     (if c = CHR '','' then [] # split_comma cs
      else (case split_comma cs of
              [] \<Rightarrow> [[c]]
            | w # ws \<Rightarrow> (c # w) # ws))"

text \<open>
  \<open>TRIM\<close> of the store removes spaces only, at both ends; \<open>LOWER\<close> is \<open>lower\<close>.
\<close>

definition sql_trim :: "string \<Rightarrow> string" where
  "sql_trim s = rev (dropWhile (\<lambda>c. c = CHR '' '') (rev (dropWhile (\<lambda>c. c = CHR '' '') s)))"

text \<open>\<open>", ".join(xs)\<close>\<close>

fun join_comma :: "string list \<Rightarrow> string" where
  "join_comma [] = []"
| "join_comma [x] = x"
| "join_comma (x # y # ys) = x @ '', '' @ join_comma (y # ys)"

text \<open>\<open>str(n)\<close> of an integer, as an f-string interpolates it.\<close>

definition digit_char :: "nat \<Rightarrow> char" where
  "digit_char d = ''0123456789'' ! d"

fun str_nat :: "nat \<Rightarrow> string" where
  "str_nat n = (if n < 10 then [digit_char n] else str_nat (n div 10) @ [digit_char (n mod 10)])"

declare str_nat.simps [simp del]

definition str_int :: "int \<Rightarrow> string" where
  "str_int i = (if i < 0 then CHR ''-'' # str_nat (nat (- i)) else str_nat (nat i))"

text \<open>
  The truth value of an \<open>Optional[str]\<close>: \<open>None\<close> and the empty string are false.
\<close>

definition truthy :: "string option \<Rightarrow> bool" where
  "truthy s = (case s of None \<Rightarrow> False | Some t \<Rightarrow> t \<noteq> [])"

text \<open>\<open>s or d\<close> for an optional string \<open>s\<close>.\<close>

definition or_default :: "string option \<Rightarrow> string \<Rightarrow> string" where
  "or_default s d = (case s of None \<Rightarrow> d | Some t \<Rightarrow> if t = [] then d else t)"

text \<open>The truth value of an \<open>Optional[int]\<close>: \<open>None\<close> and \<open>0\<close> are false.\<close>

definition truthy_int :: "int option \<Rightarrow> bool" where
  "truthy_int i = (case i of None \<Rightarrow> False | Some n \<Rightarrow> n \<noteq> 0)"

text \<open>
  The elements of a list in the order of their first occurrence: the key order of a
  dictionary filled from the list, and the rows of a \<open>SELECT DISTINCT\<close> in the order
  the store meets them.
\<close>

definition first_occ :: "'a list \<Rightarrow> 'a list" where
  "first_occ xs = rev (remdups (rev xs))"

definition nl :: string where
  "nl = [CHR 0x0A]"

definition sq :: string where
  "sq = [CHR 0x27]"

section \<open>Values, exceptions and the fact table\<close>

text \<open>
  What a handler hands to \<open>JSONResponse\<close>: integers, strings, lists and dictionaries.
  A dictionary is an association list in insertion order, as a Python \<open>dict\<close> keeps it:
  \<open>d[k] = v\<close> is \<open>AList.update k v d\<close>, which overwrites in place or appends.
\<close>

datatype pyval =
    PInt int
  | PStr string
  | PList "pyval list"
  | PDict "(string \<times> pyval) list"

type_synonym pydict = "(string \<times> pyval) list"

text \<open>
  Exceptions are values. \<open>HTTPException\<close> carries the status code and the detail; the
  detail is either a literal text or \<open>str(e)\<close> of a caught exception \<open>e\<close>.
  \<open>HTTPException\<close> is itself an \<open>Exception\<close>, so an \<open>except Exception\<close> clause catches
  it like any other. \<open>RequestValidationError\<close> is what the framework raises, before the
  handler runs, for a query parameter outside its declared type or bounds;
  \<open>UpstreamError\<close> stands for any failure of the store.
\<close>

datatype exn =
    KeyError string
  | TypeError string
  | UpstreamError string
  | RequestValidationError string
  | HTTPException int detail
and detail =
    Text string
  | Str exn

text \<open>
  \<open>try: body except Exception as e: raise HTTPException(status_code=500, detail=str(e))\<close>
\<close>

definition try_except_500 :: "exn + 'a \<Rightarrow> exn + 'a" where
  "try_except_500 body =
     (case body of
        Inl e \<Rightarrow> Inl (HTTPException 500 (Str e))
      | Inr v \<Rightarrow> Inr v)"

text \<open>
  One row of \<open>census_data\<close>, with the columns the handlers read.
\<close>

record census_row =
  state :: int
  district :: int
  subdistt :: int
  town_village :: int
  level :: string
  name :: string
  tru :: string
  no_hh :: int
  tot_p :: int
  tot_m :: int
  tot_f :: int
  p_06 :: int
  m_06 :: int
  f_06 :: int
  p_sc :: int
  m_sc :: int
  f_sc :: int
  p_st :: int
  m_st :: int
  f_st :: int
  p_lit :: int
  m_lit :: int
  f_lit :: int
  tot_work_p :: int
  tot_work_m :: int
  tot_work_f :: int
  non_work_p :: int
  non_work_m :: int
  non_work_f :: int

text \<open>
  The store either fails a query (connection loss, rejected statement) or answers it.
  A connection answers a query text with its bound arguments by a list of rows.
\<close>

type_synonym 'a answer = "exn + 'a"

type_synonym 'r conn = "string \<Rightarrow> string list \<Rightarrow> 'r list answer"

section \<open>\<open>list_states\<close>: state metadata\<close>

text \<open>
  The query parameters of the request (\<open>q_fields\<close> is the parameter \<open>fields\<close>, and so
  on).
\<close>

record states_request =
  q_fields :: "string option"
  q_sort_by :: "string option"
  q_sort_order :: "string option"
  q_state_code :: "int option"
  q_limit :: int
  q_offset :: int

definition base_columns :: "string list" where
  "base_columns = [''state'', ''name'', ''level'']"

text \<open>\<open>count_fields\<close>: field name, code column, level name, in the dictionary's order.\<close>

definition count_fields :: "(string \<times> string \<times> string) list" where
  "count_fields =
     [(''district_count'', ''district'', ''district''),
      (''subdistrict_count'', ''subdistt'', ''sub-district''),
      (''village_count'', ''town_village'', ''village''),
      (''town_count'', ''town_village'', ''town'')]"

definition allowed_fields :: "string list" where
  "allowed_fields = base_columns @ map fst count_fields"

text \<open>
  The declared types and bounds of the query parameters: \<open>sort_by\<close> and \<open>sort_order\<close> are
  literals, \<open>limit\<close> has \<open>ge=1, le=1000\<close> and \<open>offset\<close> has \<open>ge=0\<close>. A request outside
  them is rejected before the handler's body runs.
\<close>

definition list_states_params_ok :: "states_request \<Rightarrow> bool" where
  "list_states_params_ok req =
     ((case q_sort_by req of None \<Rightarrow> True | Some s \<Rightarrow> s \<in> set allowed_fields) \<and>
      (case q_sort_order req of None \<Rightarrow> True | Some s \<Rightarrow> s \<in> set [''asc'', ''desc'']) \<and>
      1 \<le> q_limit req \<and> q_limit req \<le> 1000 \<and> 0 \<le> q_offset req)"

definition selected_fields :: "string option \<Rightarrow> exn + string list" where
  "selected_fields fs =
     (case fs of
        None \<Rightarrow> Inr [''state'', ''name'']
      | Some s \<Rightarrow>
          if s = [] then Inr [''state'', ''name'']
          else (let sel = map strip (filter (\<lambda>f. strip f \<in> set allowed_fields) (split_comma s))
                in if sel = [] then Inl (HTTPException 400 (Text ''No valid fields selected''))
                   else Inr sel))"

definition selected_base :: "string list \<Rightarrow> string list" where
  "selected_base sel = filter (\<lambda>f. f \<in> set base_columns) sel"

definition selected_counts :: "string list \<Rightarrow> string list" where
  "selected_counts sel = filter (\<lambda>f. f \<in> fst ` set count_fields) sel"

text \<open>The text of the base query, an f-string: every \<open>{...}\<close> is written into the text.\<close>

definition base_query :: "string list \<Rightarrow> states_request \<Rightarrow> string" where
  "base_query sel_base req =
     (let order = or_default (q_sort_by req) ''state'' @ '' '' @
                  upper (or_default (q_sort_order req) ''asc'')
      in nl @ ''        SELECT * FROM ('' @
         nl @ ''            SELECT DISTINCT ON (state) '' @ join_comma sel_base @
         nl @ ''            FROM census_data'' @
         nl @ ''            WHERE TRIM(LOWER(level)) = '' @ sq @ ''state'' @ sq @
         nl @ ''            ORDER BY state, '' @ order @
         nl @ ''        ) AS sorted_states'' @
         nl @ ''        '' @
           (case q_state_code req of
              None \<Rightarrow> []
            | Some c \<Rightarrow> ''WHERE state = '' @ str_int c) @
         nl @ ''        ORDER BY '' @ order @
         nl @ ''        LIMIT '' @ str_int (q_limit req) @ '' OFFSET '' @ str_int (q_offset req) @
         nl @ ''    '')"

definition count_query :: "string \<Rightarrow> string" where
  "count_query code_column =
     nl @ ''                    SELECT state, COUNT(DISTINCT '' @ code_column @ '') AS count'' @
     nl @ ''                    FROM census_data'' @
     nl @ ''                    WHERE TRIM(LOWER(level)) = $1'' @
     nl @ ''                    GROUP BY state'' @
     nl @ ''                ''"

text \<open>
  The value of a base column in a row, and \<open>dict(r)\<close> of a fetched record \<open>r\<close> whose
  columns are the select list \<open>cols\<close>: the keys in the order of the select list.
\<close>

definition base_column :: "string \<Rightarrow> census_row \<Rightarrow> pyval" where
  "base_column c r =
     (if c = ''state'' then PInt (state r)
      else if c = ''name'' then PStr (name r)
      else PStr (level r))"

definition dict_of_record :: "string list \<Rightarrow> census_row \<Rightarrow> pydict" where
  "dict_of_record cols r = fold (\<lambda>c d. AList.update c (base_column c r) d) cols []"

text \<open>
  The loop over the count fields. The answer to a count query is a list of rows
  \<open>(state, count)\<close>.
\<close>

definition add_count :: "string \<Rightarrow> int \<times> int \<Rightarrow> (int \<times> pydict) list \<Rightarrow> (int \<times> pydict) list" where
  "add_count field row cbs =
     (let st_code = fst row;
          cbs1 = (if st_code \<notin> fst ` set cbs then cbs @ [(st_code, [])] else cbs)
      in AList.map_entry st_code (AList.update field (PInt (snd row))) cbs1)"

fun fetch_counts ::
  "(int \<times> int) conn \<Rightarrow> string list \<Rightarrow> (int \<times> pydict) list \<Rightarrow> exn + (int \<times> pydict) list" where
  "fetch_counts conn_count [] cbs = Inr cbs"
| "fetch_counts conn_count (field # rest) cbs =
     (case map_of count_fields field of
        None \<Rightarrow> Inl (KeyError field)
      | Some (code_column, level_name) \<Rightarrow>
          (case conn_count (count_query code_column) [lower level_name] of
             Inl e \<Rightarrow> Inl e
           | Inr rows \<Rightarrow> fetch_counts conn_count rest (fold (add_count field) rows cbs)))"

text \<open>\<open>result.update(other)\<close>\<close>

definition dict_update :: "pydict \<Rightarrow> pydict \<Rightarrow> pydict" where
  "dict_update d other = fold (\<lambda>kv. AList.update (fst kv) (snd kv)) other d"

text \<open>
  The merge loop: \<open>result["state"]\<close> raises \<open>KeyError\<close> when the record has no such
  column; \<open>counts_by_state.get(st_code, {})\<close> defaults to the empty dictionary.
\<close>

definition counts_get :: "(int \<times> pydict) list \<Rightarrow> pyval \<Rightarrow> pydict" where
  "counts_get cbs st =
     (case st of
        PInt i \<Rightarrow> (case map_of cbs i of Some d \<Rightarrow> d | None \<Rightarrow> [])
      | _ \<Rightarrow> [])"

fun merge_counts :: "(int \<times> pydict) list \<Rightarrow> pydict list \<Rightarrow> exn + pydict list" where
  "merge_counts cbs [] = Inr []"
| "merge_counts cbs (result # rest) =
     (case map_of result ''state'' of
        None \<Rightarrow> Inl (KeyError ''state'')
      | Some st_code \<Rightarrow>
          (case merge_counts cbs rest of
             Inl e \<Rightarrow> Inl e
           | Inr rs \<Rightarrow> Inr (dict_update result (counts_get cbs st_code) # rs)))"

text \<open>
  The handler. The base query is sent as text with no bound argument; the store's answer
  is the rows of \<open>census_data\<close> it selects, in the order it returns them, and the select
  list of the text decides which columns each fetched record has.
\<close>

definition list_states ::
  "census_row conn \<Rightarrow> (int \<times> int) conn \<Rightarrow> states_request \<Rightarrow> exn + pydict list" where
  "list_states conn_base conn_count req =
     (if \<not> list_states_params_ok req then Inl (RequestValidationError ''query'')
      else case selected_fields (q_fields req) of
        Inl e \<Rightarrow> Inl e
      | Inr sel \<Rightarrow>
          try_except_500
            (case conn_base (base_query (selected_base sel) req) [] of
               Inl e \<Rightarrow> Inl e
             | Inr base_rows \<Rightarrow>
                 (let results = map (dict_of_record (selected_base sel)) base_rows
                  in case fetch_counts conn_count (selected_counts sel) [] of
                       Inl e \<Rightarrow> Inl e
                     | Inr counts_by_state \<Rightarrow> merge_counts counts_by_state results)))"

section \<open>The state-level endpoints\<close>

text \<open>
  The seven handlers \<open>get_state_population\<close>, \<open>get_state_gender_population\<close>,
  \<open>get_state_literacy\<close>, \<open>get_state_workers\<close>, \<open>get_state_caste_population\<close>,
  \<open>get_state_non_workers\<close> and \<open>get_state_households\<close> validate \<open>tru\<close>, split the
  name list, and fetch with the same \<open>WHERE\<close> clause. None of their queries has an
  \<open>ORDER BY\<close>: the store is the list of the rows of \<open>census_data\<close> in the order in which
  it delivers them, and a fetch keeps the rows that satisfy the clause.
\<close>

definition allowed_tru :: "string list" where
  "allowed_tru = [''total'', ''rural'', ''urban'']"

text \<open>\<open>tru and tru.lower() not in allowed_tru\<close>\<close>

definition tru_invalid :: "string option \<Rightarrow> bool" where
  "tru_invalid t = (case t of None \<Rightarrow> False | Some s \<Rightarrow> s \<noteq> [] \<and> lower s \<notin> set allowed_tru)"

text \<open>\<open>[s.strip().lower() for s in states.split(",") if s.strip()]\<close>\<close>

definition name_list :: "string \<Rightarrow> string list" where
  "name_list states = map (\<lambda>s. lower (strip s)) (filter (\<lambda>s. strip s \<noteq> []) (split_comma states))"

text \<open>
  The clause \<open>TRIM(LOWER(level)) = 'state' AND TRIM(LOWER(name)) IN (...)\<close>, with
  \<open>AND TRIM(LOWER(tru)) = ...\<close> when the request gives a \<open>tru\<close>; \<open>tru_arg\<close> is the bound
  argument.
\<close>

definition state_rows_where :: "string list \<Rightarrow> string option \<Rightarrow> census_row \<Rightarrow> bool" where
  "state_rows_where vals tru_arg r =
     (sql_trim (lower (level r)) = ''state'' \<and>
      sql_trim (lower (name r)) \<in> set vals \<and>
      (case tru_arg of None \<Rightarrow> True | Some t \<Rightarrow> sql_trim (lower (tru r)) = t))"

definition tru_arg :: "string option \<Rightarrow> string option" where
  "tru_arg t = (if truthy t then map_option lower t else None)"

definition fetch :: "census_row list answer \<Rightarrow> (census_row \<Rightarrow> bool) \<Rightarrow> census_row list answer" where
  "fetch store p = (case store of Inl e \<Rightarrow> Inl e | Inr rows \<Rightarrow> Inr (filter p rows))"

text \<open>
  What six of the handlers share: the two checks before the \<open>try\<close>, then, inside it, the
  fetch and the check for an empty result. \<open>body\<close> is the loop over the fetched rows.
\<close>

definition state_endpoint ::
  "(census_row list \<Rightarrow> exn + pydict list) \<Rightarrow> census_row list answer \<Rightarrow> string \<Rightarrow>
     string option \<Rightarrow> exn + pydict list" where
  "state_endpoint body store states t =
     (if tru_invalid t then Inl (HTTPException 400 (Text ''Invalid TRU value''))
      else if name_list states = [] then
        Inl (HTTPException 400 (Text ''No valid state names provided.''))
      else try_except_500
        (case fetch store (state_rows_where (name_list states) (tru_arg t)) of
           Inl e \<Rightarrow> Inl e
         | Inr rows \<Rightarrow>
             if rows = [] then Inl (HTTPException 404 (Text ''No data found''))
             else body rows))"

subsection \<open>Grouping by state, nested by TRU\<close>

text \<open>
  The loops of the gender, workers, caste and non-workers handlers are the same but for
  the grouping key and the metric block: a row whose key is new seeds an object with its
  name and state code and an empty metric dictionary, and every row stores its block in
  that dictionary under its lowercase TRU label.
  (\<open>get_state_gender_population\<close> seeds through a \<open>defaultdict\<close> whose objects start as
  \<open>{"population": {}}\<close> and get name and code when they have no \<open>"name"\<close> yet, which is
  when the key is new.)
\<close>

record agg =
  agg_name :: string
  agg_state :: int
  agg_blocks :: pydict

definition group_step ::
  "(census_row \<Rightarrow> 'k) \<Rightarrow> (census_row \<Rightarrow> pyval) \<Rightarrow> census_row \<Rightarrow> ('k \<times> agg) list \<Rightarrow>
     ('k \<times> agg) list" where
  "group_step key_of block row grouped =
     (let key = key_of row;
          tru_key = lower (tru row);
          grouped1 =
            (if key \<notin> fst ` set grouped
             then grouped @ [(key, \<lparr>agg_name = name row, agg_state = state row, agg_blocks = []\<rparr>)]
             else grouped)
      in AList.map_entry key
           (\<lambda>obj. obj\<lparr>agg_blocks := AList.update tru_key (block row) (agg_blocks obj)\<rparr>) grouped1)"

definition group_rows ::
  "(census_row \<Rightarrow> 'k) \<Rightarrow> (census_row \<Rightarrow> pyval) \<Rightarrow> census_row list \<Rightarrow> ('k \<times> agg) list" where
  "group_rows key_of block rows = fold (group_step key_of block) rows []"

text \<open>A block \<open>{"total": p, "male": m, "female": f}\<close>.\<close>

definition tmf :: "int \<Rightarrow> int \<Rightarrow> int \<Rightarrow> pydict" where
  "tmf p m f = [(''total'', PInt p), (''male'', PInt m), (''female'', PInt f)]"

definition gender_block :: "census_row \<Rightarrow> pyval" where
  "gender_block r = PDict (tmf (tot_p r) (tot_m r) (tot_f r))"

definition workers_block :: "census_row \<Rightarrow> pyval" where
  "workers_block r = PDict (tmf (tot_work_p r) (tot_work_m r) (tot_work_f r))"





definition named_object :: "string \<Rightarrow> agg \<Rightarrow> pydict" where
  "named_object metric obj =
     [(''name'', PStr (agg_name obj)), (''state'', PInt (agg_state obj)),
      (metric, PDict (agg_blocks obj))]"


definition get_state_workers ::
  "census_row list answer \<Rightarrow> string \<Rightarrow> string option \<Rightarrow> exn + pydict list" where
  "get_state_workers =
     state_endpoint
       (\<lambda>rows. Inr (map (named_object ''workers'' \<circ> snd) (group_rows state workers_block rows)))"



subsection \<open>\<open>get_state_literacy\<close>\<close>




subsection \<open>\<open>get_state_households\<close>\<close>

record hh =
  hh_name :: string
  hh_state :: int
  hh_households :: pyval
  hh_population :: pydict
  hh_under_6 :: pydict

text \<open>
  \<open>state_data[state_id]["households"][tru_value] = n\<close>: a missing key and a value that
  is no dictionary raise.
\<close>

definition set_households ::
  "int \<Rightarrow> string \<Rightarrow> int \<Rightarrow> (int \<times> hh) list \<Rightarrow> exn + (int \<times> hh) list" where
  "set_households state_id tru_value n state_data =
     (case map_of state_data state_id of
        None \<Rightarrow> Inl (KeyError ''state_id'')
      | Some obj \<Rightarrow>
          (case hh_households obj of
             PDict d \<Rightarrow>
               Inr (AList.update state_id
                      (obj\<lparr>hh_households := PDict (AList.update tru_value (PInt n) d)\<rparr>) state_data)
           | _ \<Rightarrow> Inl (TypeError ''households'')))"

definition households_step ::
  "string option \<Rightarrow> census_row \<Rightarrow> (int \<times> hh) list \<Rightarrow> exn + (int \<times> hh) list" where
  "households_step t row state_data =
     (let state_id = state row;
          tru_value = lower (tru row);
          state_data1 =
            (if state_id \<notin> fst ` set state_data
             then state_data @
               [(state_id,
                 \<lparr>hh_name = name row, hh_state = state_id,
                  hh_households = (if truthy t then PInt (no_hh row) else PDict []),
                  hh_population = tmf (tot_p row) (tot_m row) (tot_f row),
                  hh_under_6 = tmf (p_06 row) (m_06 row) (f_06 row)\<rparr>)]
             else state_data)
      in if \<not> truthy t then set_households state_id tru_value (no_hh row) state_data1
         else Inr state_data1)"

fun households_loop ::
  "string option \<Rightarrow> census_row list \<Rightarrow> (int \<times> hh) list \<Rightarrow> exn + (int \<times> hh) list" where
  "households_loop t [] state_data = Inr state_data"
| "households_loop t (row # rows) state_data =
     (case households_step t row state_data of
        Inl e \<Rightarrow> Inl e
      | Inr state_data' \<Rightarrow> households_loop t rows state_data')"

definition households_object :: "hh \<Rightarrow> pydict" where
  "households_object obj =
     [(''name'', PStr (hh_name obj)), (''state'', PInt (hh_state obj)),
      (''households'', hh_households obj), (''population'', PDict (hh_population obj)),
      (''under_6'', PDict (hh_under_6 obj))]"

definition get_state_households ::
  "census_row list answer \<Rightarrow> string \<Rightarrow> string option \<Rightarrow> exn + pydict list" where
  "get_state_households store states t =
     state_endpoint
       (\<lambda>rows. case households_loop t rows [] of
                  Inl e \<Rightarrow> Inl e
                | Inr state_data \<Rightarrow> Inr (map (households_object \<circ> snd) state_data))
       store states t"

subsection \<open>\<open>get_state_population\<close>\<close>

text \<open>The bound argument is \<open>tru.strip().lower()\<close> here.\<close>

definition population_tru_arg :: "string option \<Rightarrow> string option" where
  "population_tru_arg t = (if truthy t then map_option (\<lambda>s. lower (strip s)) t else None)"

text \<open>
  The inner loop over \<open>results\<close>: every entry with the row's state code gets the row's
  population under the row's lowercase TRU label.
\<close>

definition population_step :: "census_row \<Rightarrow> agg list \<Rightarrow> agg list" where
  "population_step row results =
     map (\<lambda>st. if agg_state st = state row
                then st\<lparr>agg_blocks := AList.update (lower (tru row)) (PInt (tot_p row)) (agg_blocks st)\<rparr>
                else st) results"

definition population_object :: "bool \<Rightarrow> agg \<Rightarrow> pydict" where
  "population_object include_population st =
     [(''name'', PStr (agg_name st)), (''state'', PInt (agg_state st))] @
     (if include_population then [(''population'', PDict (agg_blocks st))] else [])"

definition get_state_population ::
  "census_row list answer \<Rightarrow> string \<Rightarrow> string option \<Rightarrow> bool \<Rightarrow> exn + pydict list" where
  "get_state_population store states t include_population =
     (if tru_invalid t then
        Inl (HTTPException 400 (Text ''Invalid tru value. Use: total, rural, or urban''))
      else if name_list states = [] then
        Inl (HTTPException 400 (Text ''No valid state names provided.''))
      else try_except_500
        (let p = state_rows_where (name_list states) (population_tru_arg t)
         in case fetch store p of
              Inl e \<Rightarrow> Inl e
            | Inr matching \<Rightarrow>
                (let meta_rows = first_occ (map (\<lambda>r. (name r, state r)) matching)
                 in if meta_rows = [] then
                      Inl (HTTPException 404 (Text ''No matching states found''))
                    else
                      (let results =
                             map (\<lambda>m. \<lparr>agg_name = fst m, agg_state = snd m, agg_blocks = []\<rparr>)
                               meta_rows
                       in if include_population then
                            (case fetch store p of
                               Inl e \<Rightarrow> Inl e
                             | Inr pop_rows \<Rightarrow>
                                 Inr (map (population_object True)
                                        (fold population_step pop_rows results)))
                          else Inr (map (population_object False) results)))))"

section \<open>\<open>get_district_population_breakdown\<close>\<close>

text \<open>A row of the join: district name, state name, TRU label and the three counts.\<close>

record breakdown_row =
  b_district :: string
  b_state :: string
  b_tru :: string
  b_total :: int
  b_male :: int
  b_female :: int

text \<open>\<open>", ".join(f"${i+1}" for i in range(n))\<close>\<close>

definition placeholders :: "nat \<Rightarrow> string" where
  "placeholders n = join_comma (map (\<lambda>i. ''$'' @ str_nat (i + 1)) [0..<n])"

text \<open>
  The query text and its bound arguments. \<open>limit\<close> and \<open>offset\<close> are declared as optional
  integers with no bound; each is appended to the text when it is neither \<open>None\<close> nor 0.
\<close>

definition breakdown_query ::
  "string list \<Rightarrow> string option \<Rightarrow> int option \<Rightarrow> int option \<Rightarrow> string \<times> string list" where
  "breakdown_query state_values t lim off =
     (let query0 =
            nl @ ''        SELECT c.name AS district, s.name AS state, c.tru,'' @
            nl @ ''               c.tot_p AS total, c.tot_m AS male, c.tot_f AS female'' @
            nl @ ''        FROM census_data c'' @
            nl @ ''        JOIN ('' @
            nl @ ''            SELECT DISTINCT state, name'' @
            nl @ ''            FROM census_data'' @
            nl @ ''            WHERE TRIM(LOWER(level)) = '' @ sq @ ''state'' @ sq @
                 '' AND TRIM(LOWER(name)) IN ('' @ placeholders (length state_values) @ '')'' @
            nl @ ''        ) s ON c.state = s.state'' @
            nl @ ''        WHERE TRIM(LOWER(c.level)) = '' @ sq @ ''district'' @ sq @
            nl @ ''    '';
          query1 = (case t of
                      None \<Rightarrow> query0
                    | Some s \<Rightarrow>
                        if s \<noteq> [] then
                          query0 @ '' AND TRIM(LOWER(c.tru)) = $'' @ str_nat (length state_values + 1)
                        else query0);
          vals = (case t of
                    None \<Rightarrow> state_values
                  | Some s \<Rightarrow> if s \<noteq> [] then state_values @ [lower (strip s)] else state_values);
          query2 = query1 @ '' ORDER BY s.name, c.name'';
          query3 = (case lim of
                      None \<Rightarrow> query2
                    | Some l \<Rightarrow> if l \<noteq> 0 then query2 @ '' LIMIT '' @ str_int l else query2);
          query4 = (case off of
                      None \<Rightarrow> query3
                    | Some k \<Rightarrow> if k \<noteq> 0 then query3 @ '' OFFSET '' @ str_int k else query3)
      in (query4, vals))"

definition breakdown_step ::
  "breakdown_row \<Rightarrow> (string \<times> (string \<times> pydict) list) list \<Rightarrow>
     (string \<times> (string \<times> pydict) list) list" where
  "breakdown_step row grouped_states =
     (let st = b_state row;
          dist = b_district row;
          tru_key = lower (b_tru row);
          gs1 = (if st \<notin> fst ` set grouped_states then grouped_states @ [(st, [])]
                 else grouped_states)
      in AList.map_entry st
           (\<lambda>districts.
              AList.map_entry dist
                (AList.update tru_key (PDict (tmf (b_total row) (b_male row) (b_female row))))
                (if dist \<notin> fst ` set districts then districts @ [(dist, [])] else districts))
           gs1)"

definition breakdown_object :: "string \<times> (string \<times> pydict) list \<Rightarrow> pydict" where
  "breakdown_object entry =
     [(''state'', PStr (fst entry)),
      (''districts'',
       PList (map (\<lambda>d. PDict [(''name'', PStr (fst d)), (''population'', PDict (snd d))])
                (snd entry)))]"

definition get_district_population_breakdown ::
  "breakdown_row conn \<Rightarrow> string \<Rightarrow> string option \<Rightarrow> int option \<Rightarrow> int option \<Rightarrow>
     exn + pydict list" where
  "get_district_population_breakdown conn states t lim off =
     (if tru_invalid t then Inl (HTTPException 400 (Text ''Invalid tru value''))
      else if name_list states = [] then
        Inl (HTTPException 400 (Text ''No valid state names provided.''))
      else
        (let q = breakdown_query (name_list states) t lim off
         in try_except_500
              (case conn (fst q) (snd q) of
                 Inl e \<Rightarrow> Inl e
               | Inr rows \<Rightarrow> Inr (map breakdown_object (fold breakdown_step rows [])))))"

section \<open>Name resolution and the location hierarchy\<close>

text \<open>
  \<open>get_state_locations\<close> and \<open>get_location_hierarchy\<close> resolve the state name with the
  same query: \<open>SELECT DISTINCT state, name ... LIMIT 1\<close>, with no \<open>ORDER BY\<close>.
  \<open>fetchrow\<close> gives the first row of the answer, or \<open>None\<close>.
\<close>

definition state_candidates :: "census_row list \<Rightarrow> string \<Rightarrow> (int \<times> string) list" where
  "state_candidates rows state_name =
     first_occ (map (\<lambda>r. (state r, name r))
       (filter (\<lambda>r. sql_trim (lower (level r)) = ''state'' \<and>
                     sql_trim (lower (name r)) = state_name) rows))"

definition fetchrow :: "'a list \<Rightarrow> 'a option" where
  "fetchrow rs = (case rs of [] \<Rightarrow> None | r # _ \<Rightarrow> Some r)"

definition resolve_state :: "census_row list \<Rightarrow> string \<Rightarrow> exn + int \<times> string" where
  "resolve_state rows st =
     (case fetchrow (state_candidates rows (lower (strip st))) of
        None \<Rightarrow> Inl (HTTPException 404 (Text ''State not found''))
      | Some meta_row \<Rightarrow> Inr meta_row)"

text \<open>
  \<open>ORDER BY name\<close> sorts by the store's collation, a parameter \<open>le\<close> of the model.
\<close>

fun insort_by :: "('a \<Rightarrow> 'a \<Rightarrow> bool) \<Rightarrow> 'a \<Rightarrow> 'a list \<Rightarrow> 'a list" where
  "insort_by le x [] = [x]"
| "insort_by le x (y # ys) = (if le x y then x # y # ys else y # insort_by le x ys)"

definition order_by :: "(string \<Rightarrow> string \<Rightarrow> bool) \<Rightarrow> ('a \<Rightarrow> string) \<Rightarrow> 'a list \<Rightarrow> 'a list" where
  "order_by le f xs = foldr (insort_by (\<lambda>a b. le (f a) (f b))) xs []"

definition fetch_names ::
  "(string \<Rightarrow> string \<Rightarrow> bool) \<Rightarrow> census_row list \<Rightarrow> int \<Rightarrow> string \<Rightarrow> pyval" where
  "fetch_names le rows state_code level_name =
     PList (map PStr (order_by le id (first_occ (map name
       (filter (\<lambda>r. sql_trim (lower (level r)) = level_name \<and> state r = state_code) rows)))))"

definition get_state_locations ::
  "(string \<Rightarrow> string \<Rightarrow> bool) \<Rightarrow> census_row list answer \<Rightarrow> string \<Rightarrow> exn + pydict" where
  "get_state_locations le store st =
     try_except_500
       (case store of
          Inl e \<Rightarrow> Inl e
        | Inr rows \<Rightarrow>
            (case resolve_state rows st of
               Inl e \<Rightarrow> Inl e
             | Inr meta_row \<Rightarrow>
                 (let state_code = fst meta_row
                  in Inr [(''name'', PStr (snd meta_row)), (''state'', PInt state_code),
                          (''districts'', fetch_names le rows state_code ''district''),
                          (''subdistricts'', fetch_names le rows state_code ''sub-district''),
                          (''towns'', fetch_names le rows state_code ''town''),
                          (''villages'', fetch_names le rows state_code ''village'')])))"

text \<open>
  The places of a state: the rows with
  \<open>state = $1 AND TRIM(LOWER(level)) IN ('town', 'village')\<close>.
\<close>

definition fetch_places :: "census_row list \<Rightarrow> int \<Rightarrow> census_row list" where
  "fetch_places rows state_code =
     filter (\<lambda>r. state r = state_code \<and> sql_trim (lower (level r)) \<in> set [''town'', ''village''])
       rows"

text \<open>
  The loop over the places. \<open>place_map\<close> is a \<open>defaultdict\<close> of
  \<open>{"towns": [], "villages": []}\<close>, here a pair of lists for each key.
\<close>

definition place_step ::
  "census_row \<Rightarrow> ((int \<times> int) \<times> string list \<times> string list) list \<Rightarrow>
     ((int \<times> int) \<times> string list \<times> string list) list" where
  "place_step p place_map =
     (let key = (district p, subdistt p);
          pm1 = (if key \<notin> fst ` set place_map then place_map @ [(key, ([], []))] else place_map)
      in AList.map_entry key
           (\<lambda>b. if lower (level p) = ''town'' then (fst b @ [name p], snd b)
                 else (fst b, snd b @ [name p])) pm1)"

definition build_place_map ::
  "census_row list \<Rightarrow> ((int \<times> int) \<times> string list \<times> string list) list" where
  "build_place_map places = fold place_step places []"

text \<open>The loop over the sub-districts, rows \<open>(subdistt, district, name)\<close>.\<close>

definition sub_step ::
  "bool \<Rightarrow> ((int \<times> int) \<times> string list \<times> string list) list \<Rightarrow> int \<times> int \<times> string \<Rightarrow>
     (int \<times> pyval list) list \<Rightarrow> (int \<times> pyval list) list" where
  "sub_step include_places place_map sub sub_map =
     (case sub of (sd, d, nm) \<Rightarrow>
        (let sm1 = (if d \<notin> fst ` set sub_map then sub_map @ [(d, [])] else sub_map);
             b = (case map_of place_map (d, sd) of Some b \<Rightarrow> b | None \<Rightarrow> ([], []));
             obj = [(''name'', PStr nm)] @
                   (if include_places
                    then [(''towns'', PList (map PStr (fst b))),
                          (''villages'', PList (map PStr (snd b)))]
                    else [])
         in AList.map_entry d (\<lambda>l. l @ [PDict obj]) sm1))"

definition district_object :: "bool \<Rightarrow> (int \<times> pyval list) list \<Rightarrow> int \<times> string \<Rightarrow> pyval" where
  "district_object include_subdistricts sub_map dist =
     PDict ([(''name'', PStr (snd dist))] @
            (if include_subdistricts
             then [(''subdistricts'',
                    PList (case map_of sub_map (fst dist) of Some l \<Rightarrow> l | None \<Rightarrow> []))]
             else []))"

definition get_location_hierarchy ::
  "(string \<Rightarrow> string \<Rightarrow> bool) \<Rightarrow> census_row list answer \<Rightarrow> string \<Rightarrow> bool \<Rightarrow> bool \<Rightarrow>
     exn + pydict" where
  "get_location_hierarchy le store st include_subdistricts include_places =
     try_except_500
       (case store of
          Inl e \<Rightarrow> Inl e
        | Inr rows \<Rightarrow>
            (case resolve_state rows st of
               Inl e \<Rightarrow> Inl e
             | Inr state_row \<Rightarrow>
                 (let state_code = fst state_row;
                      state_display = snd state_row;
                      districts = order_by le snd (first_occ (map (\<lambda>r. (district r, name r))
                        (filter (\<lambda>r. state r = state_code \<and>
                                      sql_trim (lower (level r)) = ''district'') rows)));
                      sub_map =
                        (if include_subdistricts then
                           (let subdistricts = first_occ (map (\<lambda>r. (subdistt r, district r, name r))
                                  (filter (\<lambda>r. state r = state_code \<and>
                                     sql_trim (lower (level r)) = ''sub-district'') rows));
                                place_map =
                                  (if include_places
                                   then build_place_map (fetch_places rows state_code)
                                   else [])
                            in fold (sub_step include_places place_map) subdistricts [])
                         else [])
                  in Inr [(''state'', PStr state_display),
                          (''districts'',
                           PList (map (district_object include_subdistricts sub_map) districts))])))"

section \<open>Auxiliary notions for the statements\<close>






section \<open>The grouping in closed form\<close>

text \<open>
  The statements about the grouping loops compare them with closed forms. The rows that a
  state-level handler fetches for a request:
\<close>

definition fetched :: "census_row list \<Rightarrow> string \<Rightarrow> string option \<Rightarrow> census_row list" where
  "fetched store states t = filter (state_rows_where (name_list states) (tru_arg t)) store"

text \<open>
  The groups of a row list under a key, in the order in which the keys first occur, each
  group in the order of the rows (no group is empty), and the dictionary that nests the
  blocks of a group under the lowercase TRU labels, a later row overwriting an earlier
  one with the same label:
\<close>

definition groups :: "(census_row \<Rightarrow> 'k) \<Rightarrow> census_row list \<Rightarrow> census_row list list" where
  "groups key_of rows = map (\<lambda>k. filter (\<lambda>r. key_of r = k) rows) (first_occ (map key_of rows))"

definition nest :: "(census_row \<Rightarrow> pyval) \<Rightarrow> census_row list \<Rightarrow> pydict" where
  "nest block grp = fold (\<lambda>r. AList.update (lower (tru r)) (block r)) grp []"

text \<open>
  An accumulated object takes name and code from the first row of its group. The
  households object is flat (the count of the first row) or nested.
\<close>

definition agg_of :: "(census_row \<Rightarrow> pyval) \<Rightarrow> census_row list \<Rightarrow> agg" where
  "agg_of block grp = \<lparr>agg_name = name (hd grp), agg_state = state (hd grp), agg_blocks = nest block grp\<rparr>"


definition hh_of :: "bool \<Rightarrow> census_row list \<Rightarrow> hh" where
  "hh_of flat grp =
     \<lparr>hh_name = name (hd grp), hh_state = state (hd grp),
      hh_households = (if flat then PInt (no_hh (hd grp))
                       else PDict (nest (\<lambda>r. PInt (no_hh r)) grp)),
      hh_population = tmf (tot_p (hd grp)) (tot_m (hd grp)) (tot_f (hd grp)),
      hh_under_6 = tmf (p_06 (hd grp)) (m_06 (hd grp)) (f_06 (hd grp))\<rparr>"

text \<open>
  A loop that seeds an entry for a new key with \<open>seed\<close> and then changes the entry of
  the row's key by \<open>upd\<close> computes, for each key, the fold of \<open>upd\<close> over the key's rows
  from the seed of the first of them.
\<close>

definition grouped_nf :: "('r \<Rightarrow> 'k) \<Rightarrow> ('r \<Rightarrow> 'v) \<Rightarrow> ('r \<Rightarrow> 'v \<Rightarrow> 'v) \<Rightarrow> 'r list \<Rightarrow> ('k \<times> 'v) list" where
  "grouped_nf key_of seed upd xs =
     map (\<lambda>k. (k, fold upd (filter (\<lambda>r. key_of r = k) xs) (seed (hd (filter (\<lambda>r. key_of r = k) xs)))))
       (first_occ (map key_of xs))"

text \<open>
  The loop of \<open>get_state_households\<close> without its failure branches, and the condition
  under which they are not taken: with \<open>tru\<close> unset every \<open>households\<close> value is a
  dictionary.
\<close>

definition hh_seed :: "string option \<Rightarrow> census_row \<Rightarrow> hh" where
  "hh_seed t row =
     \<lparr>hh_name = name row, hh_state = state row,
      hh_households = (if truthy t then PInt (no_hh row) else PDict []),
      hh_population = tmf (tot_p row) (tot_m row) (tot_f row),
      hh_under_6 = tmf (p_06 row) (m_06 row) (f_06 row)\<rparr>"

definition hh_upd :: "string option \<Rightarrow> census_row \<Rightarrow> hh \<Rightarrow> hh" where
  "hh_upd t row obj =
     (if truthy t then obj
      else obj\<lparr>hh_households :=
             PDict (AList.update (lower (tru row)) (PInt (no_hh row))
                      (case hh_households obj of PDict d \<Rightarrow> d | _ \<Rightarrow> []))\<rparr>)"

definition hh_pure_step :: "string option \<Rightarrow> census_row \<Rightarrow> (int \<times> hh) list \<Rightarrow> (int \<times> hh) list" where
  "hh_pure_step t row sd =
     AList.map_entry (state row) (hh_upd t row)
       (if state row \<notin> fst ` set sd then sd @ [(state row, hh_seed t row)] else sd)"

definition hh_dicts :: "string option \<Rightarrow> (int \<times> hh) list \<Rightarrow> bool" where
  "hh_dicts t sd = (truthy t \<or> (\<forall>e\<in>set sd. \<exists>d. hh_households (snd e) = PDict d))"

text \<open>
  An accumulated object as a mapping: name, code, and the metric dictionary as a map from
  labels to blocks, without the insertion order of its keys.
\<close>

definition agg_view :: "agg \<Rightarrow> string \<times> int \<times> (string \<rightharpoonup> pyval)" where
  "agg_view a = (agg_name a, agg_state a, map_of (agg_blocks a))"

section \<open>Sample data\<close>

text \<open>Concrete rows, stores and requests on which the theorems below are instantiated.\<close>

definition karnataka_total :: census_row where
  "karnataka_total = \<lparr> state = 29, district = 0, subdistt = 0, town_village = 0,
     level = ''STATE'', name = ''KARNATAKA'', tru = ''Total'',
     no_hh = 30, tot_p = 150, tot_m = 80, tot_f = 70, p_06 = 15, m_06 = 8, f_06 = 7,
     p_sc = 20, m_sc = 11, f_sc = 9, p_st = 10, m_st = 6, f_st = 4,
     p_lit = 100, m_lit = 60, f_lit = 40,
     tot_work_p = 90, tot_work_m = 60, tot_work_f = 30,
     non_work_p = 60, non_work_m = 20, non_work_f = 40 \<rparr>"

definition default_request :: states_request where
  "default_request = \<lparr> q_fields = None, q_sort_by = Some ''state'', q_sort_order = Some ''asc'',
     q_state_code = None, q_limit = 100, q_offset = 0 \<rparr>"


text \<open>
  A store that answers every base query with the one row, one that reports three towns
  for state 29, and one that fails every query with the query text as the message.
\<close>

definition one_state :: "census_row conn" where
  "one_state q args = Inr [karnataka_total]"

definition town_counts :: "(int \<times> int) conn" where
  "town_counts q args = Inr [(29, 3)]"


text \<open>
  The rural and the urban row of the same state, the rural row with the name in another
  spelling, a state row that matches the name \<open>karnataka\<close> under
  another code, and places
  of the sub-district 5501 of district 577 whose level is padded with a space.
\<close>

definition karnataka_rural :: census_row where
  "karnataka_rural = karnataka_total\<lparr>tru := ''Rural'', no_hh := 20, tot_p := 100, tot_m := 52,
     tot_f := 48\<rparr>"

definition karnataka_urban :: census_row where
  "karnataka_urban = karnataka_total\<lparr>tru := ''Urban'', no_hh := 10, tot_p := 50, tot_m := 28,
     tot_f := 22\<rparr>"

definition karnataka_rural_alt :: census_row where
  "karnataka_rural_alt = karnataka_rural\<lparr>name := ''Karnataka''\<rparr>"




section \<open>Lists and dictionaries\<close>

lemma first_occ_Nil: "first_occ [] = []"
  by (simp add: first_occ_def)

lemma first_occ_snoc:
  "first_occ (xs @ [x]) = (if x \<in> set xs then first_occ xs else first_occ xs @ [x])"
  by (simp add: first_occ_def)

lemma set_first_occ: "set (first_occ xs) = set xs"
  by (simp add: first_occ_def)

lemma distinct_first_occ: "distinct (first_occ xs)"
  by (simp add: first_occ_def)







section \<open>Properties of \<open>list_states\<close>\<close>




lemma merge_counts_no_counts:
  "\<forall>d\<in>set ds. map_of d ''state'' \<noteq> None \<Longrightarrow> merge_counts [] ds = Inr ds"
  by (induction ds) (auto simp: counts_get_def dict_update_def split: pyval.splits)






lemma selected_default: "selected_fields None = Inr [''state'', ''name'']"
  by (simp add: selected_fields_def)

lemma selected_base_default: "selected_base [''state'', ''name''] = [''state'', ''name'']"
  by (simp add: selected_base_def base_columns_def)

lemma selected_counts_default: "selected_counts [''state'', ''name''] = []"
  by (simp add: selected_counts_def count_fields_def)








text \<open>
  Claim C10. A request to the state-metadata operation that omits \<open>fields\<close> projects on
  exactly the two fields \<open>state\<close> and \<open>name\<close>: unless the store fails, the response holds
  one object per fetched row, with the keys \<open>state\<close> and \<open>name\<close> in this order and no
  count field.
\<close>

theorem list_states_default_fields:
  assumes "list_states_params_ok req" and "q_fields req = None"
  shows "list_states conn_base conn_count req =
     (case conn_base (base_query [''state'', ''name''] req) [] of
        Inl e \<Rightarrow> Inl (HTTPException 500 (Str e))
      | Inr base_rows \<Rightarrow>
          Inr (map (\<lambda>r. [(''state'', PInt (state r)), (''name'', PStr (name r))]) base_rows))"
proof (cases "conn_base (base_query [''state'', ''name''] req) []")
  case (Inl e)
  then show ?thesis using assms
    by (simp add: list_states_def selected_default selected_base_default try_except_500_def)
next
  case (Inr base_rows)
  have d: "dict_of_record [''state'', ''name''] r =
      [(''state'', PInt (state r)), (''name'', PStr (name r))]" for r
    by (simp add: dict_of_record_def base_column_def)
  have "merge_counts [] (map (dict_of_record [''state'', ''name'']) base_rows)
        = Inr (map (dict_of_record [''state'', ''name'']) base_rows)"
    by (rule merge_counts_no_counts) (simp add: d)
  then show ?thesis using assms Inr
    by (simp add: list_states_def selected_default selected_base_default
        selected_counts_default try_except_500_def d)
qed

theorem list_states_default_fields_witness:
  "list_states_params_ok default_request \<and> q_fields default_request = None \<and>
   list_states one_state town_counts default_request =
     Inr [[(''state'', PInt 29), (''name'', PStr ''KARNATAKA'')]]"
proof -
  have ok: "list_states_params_ok default_request"
    by (simp add: list_states_params_ok_def default_request_def allowed_fields_def base_columns_def)
  have none: "q_fields default_request = None"
    by (simp add: default_request_def)
  show ?thesis
    using list_states_default_fields [OF ok none, of one_state town_counts] ok none
    by (simp add: one_state_def karnataka_total_def)
qed



subsection \<open>The key order of the projected objects\<close>








subsection \<open>Limit and offset in the query text\<close>


lemma name_list_Karnataka: "name_list ''Karnataka'' = [''karnataka'']"
  by (simp add: name_list_def strip_def isspace_def lower_def lower_char_def)

lemma tru_invalid_None: "\<not> tru_invalid None"
  by (simp add: tru_invalid_def)














section \<open>Requests that match no row\<close>

lemma name_list_Atlantis: "name_list ''Atlantis'' = [''atlantis'']"
  by (simp add: name_list_def strip_def isspace_def lower_def lower_char_def)

lemma karnataka_not_atlantis:
  "\<not> state_rows_where [''atlantis''] ta karnataka_total"
  by (simp add: state_rows_where_def karnataka_total_def sql_trim_def lower_def lower_char_def)

text \<open>
  Claim C2, evaluated on the code. For a valid request whose filter matches no row, the
  handlers that check for an empty result raise \<open>HTTPException(404)\<close> inside the \<open>try\<close>
  block, where \<open>except Exception\<close> catches it and raises \<open>HTTPException(500)\<close> with the
  404 as its detail: the response has status 500, not 404. This holds for
  \<open>get_state_population\<close> and for the six handlers built on \<open>state_endpoint\<close>.
  \<open>get_district_population_breakdown\<close> has no such check and answers with the empty
  list.
\<close>

theorem zero_match_is_not_a_404:
  assumes "\<not> tru_invalid t" and "name_list states \<noteq> []"
  shows "(filter (state_rows_where (name_list states) (population_tru_arg t)) rows = [] \<longrightarrow>
            get_state_population (Inr rows) states t include_population =
              Inl (HTTPException 500 (Str (HTTPException 404 (Text ''No matching states found''))))) \<and>
         (filter (state_rows_where (name_list states) (tru_arg t)) rows = [] \<longrightarrow>
            state_endpoint body (Inr rows) states t =
              Inl (HTTPException 500 (Str (HTTPException 404 (Text ''No data found''))))) \<and>
         (conn (fst (breakdown_query (name_list states) t lim off))
               (snd (breakdown_query (name_list states) t lim off)) = Inr [] \<longrightarrow>
            get_district_population_breakdown conn states t lim off = Inr [])"
  using assms
  by (simp add: get_state_population_def state_endpoint_def get_district_population_breakdown_def
      fetch_def try_except_500_def first_occ_Nil Let_def)

theorem zero_match_is_not_a_404_witness:
  "\<not> tru_invalid None \<and> name_list ''Atlantis'' \<noteq> [] \<and>
   get_state_population (Inr [karnataka_total]) ''Atlantis'' None True =
     Inl (HTTPException 500 (Str (HTTPException 404 (Text ''No matching states found'')))) \<and>
   get_state_workers (Inr [karnataka_total]) ''Atlantis'' None =
     Inl (HTTPException 500 (Str (HTTPException 404 (Text ''No data found'')))) \<and>
   get_district_population_breakdown (\<lambda>q args. Inr []) ''Atlantis'' None None (Some 0) = Inr []"
proof -
  have ne: "name_list ''Atlantis'' \<noteq> []"
    by (simp add: name_list_Atlantis)
  show ?thesis
    using zero_match_is_not_a_404 [OF tru_invalid_None ne, of "[karnataka_total]" True
        "\<lambda>rows. Inr (map (named_object ''workers'' \<circ> snd) (group_rows state workers_block rows))"
        "\<lambda>q args. Inr []" None "Some 0"]
    by (simp add: tru_invalid_None ne name_list_Atlantis karnataka_not_atlantis
        get_state_workers_def)
qed

section \<open>Name resolution\<close>







section \<open>Towns and villages in the hierarchy\<close>










section \<open>The grouping loops in closed form\<close>

lemma keys_grouped_nf: "map fst (grouped_nf key_of seed upd xs) = first_occ (map key_of xs)"
  by (simp add: grouped_nf_def comp_def)

lemma map_entry_append_notin:
  "k \<notin> fst ` set xs \<Longrightarrow> AList.map_entry k f (xs @ ys) = xs @ AList.map_entry k f ys"
  by (induction xs) auto

lemma map_entry_map_distinct:
  "distinct ks \<Longrightarrow>
   AList.map_entry k f (map (\<lambda>k'. (k', g k')) ks) =
     map (\<lambda>k'. (k', if k' = k then f (g k') else g k')) ks"
proof (induction ks)
  case Nil
  show ?case by simp
next
  case (Cons a ks)
  show ?case
  proof (cases "a = k")
    case True
    with Cons.prems have "\<forall>k'\<in>set ks. k' \<noteq> k" by auto
    then have "map (\<lambda>k'. (k', if k' = k then f (g k') else g k')) ks = map (\<lambda>k'. (k', g k')) ks"
      by (intro map_cong) auto
    with True show ?thesis by simp
  next
    case False
    with Cons show ?thesis by simp
  qed
qed

lemma grouped_nf_step:
  "AList.map_entry (key_of x) (upd x)
     (if key_of x \<notin> fst ` set (grouped_nf key_of seed upd xs)
      then grouped_nf key_of seed upd xs @ [(key_of x, seed x)]
      else grouped_nf key_of seed upd xs) =
   grouped_nf key_of seed upd (xs @ [x])"
proof -
  let ?N = "grouped_nf key_of seed upd"
  let ?G = "\<lambda>ys k. fold upd (filter (\<lambda>r. key_of r = k) ys) (seed (hd (filter (\<lambda>r. key_of r = k) ys)))"
  have dom: "fst ` set (?N xs) = key_of ` set xs"
    using keys_grouped_nf [of key_of seed upd xs]
    by (metis list.set_map set_first_occ)
  show ?thesis
  proof (cases "key_of x \<in> key_of ` set xs")
    case False
    then have nokey: "\<forall>r\<in>set xs. key_of r \<noteq> key_of x"
      by (metis imageI)
    then have e: "filter (\<lambda>r. key_of r = key_of x) xs = []"
      by (simp add: filter_empty_conv)
    have same: "map (\<lambda>k. (k, ?G (xs @ [x]) k)) (first_occ (map key_of xs)) = ?N xs"
      unfolding grouped_nf_def
      by (rule map_cong) (use False in \<open>auto simp: set_first_occ\<close>)
    have "AList.map_entry (key_of x) (upd x) (?N xs @ [(key_of x, seed x)]) =
        ?N xs @ [(key_of x, upd x (seed x))]"
      using False dom by (simp add: map_entry_append_notin)
    moreover have "?N (xs @ [x]) = ?N xs @ [(key_of x, upd x (seed x))]"
      using False same by (simp add: grouped_nf_def first_occ_snoc e)
    ultimately show ?thesis
      using False dom by simp
  next
    case True
    then have ne: "filter (\<lambda>r. key_of r = key_of x) xs \<noteq> []"
      by (auto simp: filter_empty_conv)
    have "AList.map_entry (key_of x) (upd x) (?N xs) =
        map (\<lambda>k'. (k', if k' = key_of x then upd x (?G xs k') else ?G xs k'))
          (first_occ (map key_of xs))"
      unfolding grouped_nf_def by (rule map_entry_map_distinct) (rule distinct_first_occ)
    also have "\<dots> = map (\<lambda>k. (k, ?G (xs @ [x]) k)) (first_occ (map key_of xs))"
      by (rule map_cong) (use ne in \<open>auto\<close>)
    also have "\<dots> = ?N (xs @ [x])"
      using True by (simp add: grouped_nf_def first_occ_snoc)
    finally show ?thesis
      using True dom by simp
  qed
qed

lemma fold_grouped_nf:
  assumes "\<And>x acc. step x acc =
      AList.map_entry (key_of x) (upd x)
        (if key_of x \<notin> fst ` set acc then acc @ [(key_of x, seed x)] else acc)"
  shows "fold step xs [] = grouped_nf key_of seed upd xs"
proof (induction xs rule: rev_induct)
  case Nil
  show ?case by (simp add: grouped_nf_def first_occ_Nil)
next
  case (snoc x xs)
  have "fold step (xs @ [x]) [] = step x (fold step xs [])"
    by simp
  also have "\<dots> = step x (grouped_nf key_of seed upd xs)"
    by (simp only: snoc.IH)
  also have "\<dots> = grouped_nf key_of seed upd (xs @ [x])"
    by (simp only: assms grouped_nf_step)
  finally show ?case .
qed

lemma keys_fold_update_by:
  "map fst (fold (\<lambda>r. AList.update (kf r) (vf r)) xs []) = first_occ (map kf xs)"
proof (induction xs rule: rev_induct)
  case Nil
  show ?case by (simp add: first_occ_Nil)
next
  case (snoc x xs)
  have "set (first_occ (map kf xs)) = kf ` set xs" by (simp add: set_first_occ)
  with snoc show ?case
    by (simp add: update_keys first_occ_snoc)
qed

lemma keys_nest: "map fst (nest block grp) = first_occ (map (\<lambda>r. lower (tru r)) grp)"
  by (simp add: nest_def keys_fold_update_by)


lemma fold_agg_upd:
  "fold (\<lambda>r obj. obj\<lparr>agg_blocks := AList.update (lower (tru r)) (block r) (agg_blocks obj)\<rparr>) grp
     \<lparr>agg_name = n, agg_state = s, agg_blocks = d\<rparr> =
   \<lparr>agg_name = n, agg_state = s,
    agg_blocks = fold (\<lambda>r. AList.update (lower (tru r)) (block r)) grp d\<rparr>"
  by (induction grp arbitrary: d) simp_all



lemma state_endpoint_rows:
  assumes "\<not> tru_invalid t" and "name_list states \<noteq> []" and "fetched store states t \<noteq> []"
  shows "state_endpoint body (Inr store) states t =
     try_except_500 (body (fetched store states t))"
  using assms by (simp add: state_endpoint_def fetch_def fetched_def)



lemma grouped_nf_groups:
  "grouped_nf key_of seed upd xs =
     map (\<lambda>grp. (key_of (hd grp), fold upd grp (seed (hd grp)))) (groups key_of xs)"
proof -
  have "key_of (hd (filter (\<lambda>r. key_of r = k) xs)) = k" if "k \<in> set (first_occ (map key_of xs))" for k
  proof -
    from that have "filter (\<lambda>r. key_of r = k) xs \<noteq> []"
      by (auto simp: set_first_occ filter_empty_conv)
    then have "hd (filter (\<lambda>r. key_of r = k) xs) \<in> set (filter (\<lambda>r. key_of r = k) xs)"
      by (rule hd_in_set)
    then show ?thesis by simp
  qed
  then show ?thesis
    by (simp add: grouped_nf_def groups_def comp_def)
qed

lemma update_as_map_entry:
  "map_of xs k = Some v \<Longrightarrow> AList.update k (f v) xs = AList.map_entry k f xs"
  by (induction xs) (auto split: if_splits)

lemma map_entry_id: "AList.map_entry k (\<lambda>v. v) xs = xs"
  by (induction xs) auto

lemma map_of_seeded:
  "map_of (if k \<notin> fst ` set xs then xs @ [(k, d)] else xs) k =
     Some (case map_of xs k of None \<Rightarrow> d | Some v \<Rightarrow> v)"
proof (cases "k \<in> fst ` set xs")
  case True
  then obtain v where "map_of xs k = Some v"
    by (metis map_of_eq_None_iff not_Some_eq)
  with True show ?thesis by simp
next
  case False
  then have "map_of xs k = None" by (simp add: map_of_eq_None_iff)
  with False show ?thesis by (simp add: map_add_def)
qed






lemma households_step_pure:
  assumes "hh_dicts t sd"
  shows "households_step t row sd = Inr (hh_pure_step t row sd) \<and> hh_dicts t (hh_pure_step t row sd)"
proof (cases "truthy t")
  case True
  then have "hh_upd t row = (\<lambda>v. v)"
    by (simp add: hh_upd_def fun_eq_iff)
  with True show ?thesis
    by (simp add: households_step_def hh_pure_step_def hh_seed_def hh_dicts_def
        Let_def map_entry_id)
next
  case False
  define sd1 where
    "sd1 = (if state row \<notin> fst ` set sd then sd @ [(state row, hh_seed t row)] else sd)"
  have unfold: "households_step t row sd =
      (if \<not> truthy t then set_households (state row) (lower (tru row)) (no_hh row) sd1
       else Inr sd1)"
    by (simp add: households_step_def Let_def sd1_def hh_seed_def)
  have inv1: "\<forall>e\<in>set sd1. \<exists>d. hh_households (snd e) = PDict d"
    using assms False by (auto simp: hh_dicts_def hh_seed_def sd1_def)
  obtain obj where obj: "map_of sd1 (state row) = Some obj"
    unfolding sd1_def using map_of_seeded [of "state row" sd "hh_seed t row"] by blast
  then have "(state row, obj) \<in> set sd1"
    by (rule map_of_SomeD)
  with inv1 obtain d where d: "hh_households obj = PDict d"
    by fastforce
  have step: "households_step t row sd =
      Inr (AList.update (state row)
        (obj\<lparr>hh_households := PDict (AList.update (lower (tru row)) (PInt (no_hh row)) d)\<rparr>) sd1)"
    using False obj d by (simp add: unfold set_households_def)
  have "AList.update (state row) (hh_upd t row obj) sd1 =
      AList.map_entry (state row) (hh_upd t row) sd1"
    by (rule update_as_map_entry [OF obj])
  then have eq: "households_step t row sd = Inr (hh_pure_step t row sd)"
    using step False d by (simp add: hh_pure_step_def hh_upd_def sd1_def)
  have "\<forall>e\<in>set (AList.map_entry (state row) (hh_upd t row) sd1).
      \<exists>d. hh_households (snd e) = PDict d"
  proof
    fix e assume "e \<in> set (AList.map_entry (state row) (hh_upd t row) sd1)"
    then have "e \<in> set sd1 \<or> (\<exists>w. e = (state row, hh_upd t row w))"
      by (induction sd1) (auto split: if_splits)
    then show "\<exists>d. hh_households (snd e) = PDict d"
      using inv1 False by (auto simp: hh_upd_def)
  qed
  then have "hh_dicts t (hh_pure_step t row sd)"
    by (simp add: hh_dicts_def hh_pure_step_def sd1_def)
  with eq show ?thesis by simp
qed

lemma households_loop_pure:
  "hh_dicts t sd \<Longrightarrow> households_loop t rows sd = Inr (fold (hh_pure_step t) rows sd)"
proof (induction rows arbitrary: sd)
  case Nil
  show ?case by simp
next
  case (Cons row rows)
  from households_step_pure [OF Cons.prems, of row]
  have s: "households_step t row sd = Inr (hh_pure_step t row sd)"
    and i: "hh_dicts t (hh_pure_step t row sd)"
    by simp_all
  show ?case
    by (simp add: s Cons.IH [OF i])
qed

lemma fold_hh_upd:
  "fold (hh_upd t) grp (hh_seed t r0) =
     \<lparr>hh_name = name r0, hh_state = state r0,
      hh_households = (if truthy t then PInt (no_hh r0)
                       else PDict (nest (\<lambda>r. PInt (no_hh r)) grp)),
      hh_population = tmf (tot_p r0) (tot_m r0) (tot_f r0),
      hh_under_6 = tmf (p_06 r0) (m_06 r0) (f_06 r0)\<rparr>"
proof (induction grp rule: rev_induct)
  case Nil
  show ?case by (simp add: hh_seed_def nest_def)
next
  case (snoc r grp)
  have "fold (hh_upd t) (grp @ [r]) (hh_seed t r0) = hh_upd t r (fold (hh_upd t) grp (hh_seed t r0))"
    by simp
  also have "\<dots> = hh_upd t r
     \<lparr>hh_name = name r0, hh_state = state r0,
      hh_households = (if truthy t then PInt (no_hh r0)
                       else PDict (nest (\<lambda>r. PInt (no_hh r)) grp)),
      hh_population = tmf (tot_p r0) (tot_m r0) (tot_f r0),
      hh_under_6 = tmf (p_06 r0) (m_06 r0) (f_06 r0)\<rparr>"
    by (simp only: snoc.IH)
  also have "\<dots> =
     \<lparr>hh_name = name r0, hh_state = state r0,
      hh_households = (if truthy t then PInt (no_hh r0)
                       else PDict (nest (\<lambda>r. PInt (no_hh r)) (grp @ [r]))),
      hh_population = tmf (tot_p r0) (tot_m r0) (tot_f r0),
      hh_under_6 = tmf (p_06 r0) (m_06 r0) (f_06 r0)\<rparr>"
    by (simp add: hh_upd_def nest_def)
  finally show ?case .
qed

lemma households_loop_closed:
  "households_loop t rows [] =
     Inr (map (\<lambda>grp. (state (hd grp), hh_of (truthy t) grp)) (groups state rows))"
proof -
  have "hh_dicts t []"
    by (simp add: hh_dicts_def)
  then have "households_loop t rows [] = Inr (fold (hh_pure_step t) rows [])"
    by (rule households_loop_pure)
  also have "fold (hh_pure_step t) rows [] = grouped_nf state (hh_seed t) (hh_upd t) rows"
    by (rule fold_grouped_nf) (simp add: hh_pure_step_def)
  also have "\<dots> = map (\<lambda>grp. (state (hd grp), hh_of (truthy t) grp)) (groups state rows)"
    by (simp add: grouped_nf_groups fold_hh_upd hh_of_def)
  finally show ?thesis .
qed


section \<open>Households\<close>

lemma not_truthy_valid: "\<not> truthy t \<Longrightarrow> \<not> tru_invalid t"
  by (auto simp: truthy_def tru_invalid_def split: option.splits)

text \<open>
  Claim C9. For a state-households request with \<open>tru\<close> unset that fetches at least one
  row, the response has one object for each state code, in the order of first fetch. Its
  \<open>households\<close> block is nested, with one entry for each lowercase TRU label fetched
  for the state; its \<open>population\<close> and \<open>under_6\<close> blocks hold the counts of the first
  fetched row of the state, whatever its TRU, and no later row changes them.
\<close>

theorem households_blocks_of_first_row:
  assumes "\<not> truthy t" and "name_list states \<noteq> []" and "fetched store states t \<noteq> []"
  shows "get_state_households (Inr store) states t =
     Inr (map (\<lambda>grp.
            [(''name'', PStr (name (hd grp))), (''state'', PInt (state (hd grp))),
             (''households'', PDict (nest (\<lambda>r. PInt (no_hh r)) grp)),
             (''population'', PDict (tmf (tot_p (hd grp)) (tot_m (hd grp)) (tot_f (hd grp)))),
             (''under_6'', PDict (tmf (p_06 (hd grp)) (m_06 (hd grp)) (f_06 (hd grp))))])
          (groups state (fetched store states t))) \<and>
   map fst (nest (\<lambda>r. PInt (no_hh r)) grp) = first_occ (map (\<lambda>r. lower (tru r)) grp)"
proof
  show "get_state_households (Inr store) states t =
     Inr (map (\<lambda>grp.
            [(''name'', PStr (name (hd grp))), (''state'', PInt (state (hd grp))),
             (''households'', PDict (nest (\<lambda>r. PInt (no_hh r)) grp)),
             (''population'', PDict (tmf (tot_p (hd grp)) (tot_m (hd grp)) (tot_f (hd grp)))),
             (''under_6'', PDict (tmf (p_06 (hd grp)) (m_06 (hd grp)) (f_06 (hd grp))))])
          (groups state (fetched store states t)))"
    unfolding get_state_households_def
      state_endpoint_rows [OF not_truthy_valid [OF assms(1)] assms(2,3)]
    using assms(1)
    by (simp add: households_loop_closed try_except_500_def comp_def households_object_def hh_of_def)
next
  show "map fst (nest (\<lambda>r. PInt (no_hh r)) grp) = first_occ (map (\<lambda>r. lower (tru r)) grp)"
    by (rule keys_nest)
qed

lemma sample_fields:
  "state karnataka_rural = 29" "state karnataka_urban = 29" "state karnataka_total = 29"
  "name karnataka_rural = ''KARNATAKA''" "name karnataka_urban = ''KARNATAKA''"
  "name karnataka_total = ''KARNATAKA''"
  "lower (tru karnataka_rural) = ''rural''" "lower (tru karnataka_urban) = ''urban''"
  "lower (tru karnataka_total) = ''total''"
  "no_hh karnataka_rural = 20" "no_hh karnataka_urban = 10" "no_hh karnataka_total = 30"
  "tot_p karnataka_rural = 100" "tot_m karnataka_rural = 52" "tot_f karnataka_rural = 48"
  "tot_p karnataka_urban = 50" "tot_m karnataka_urban = 28" "tot_f karnataka_urban = 22"
  "p_06 karnataka_rural = 15" "m_06 karnataka_rural = 8" "f_06 karnataka_rural = 7"
  "p_lit karnataka_rural = 100" "m_lit karnataka_rural = 60" "f_lit karnataka_rural = 40"
  by (simp_all add: karnataka_rural_def karnataka_urban_def karnataka_total_def lower_def
      lower_char_def)

lemma sample_matches:
  "state_rows_where [''karnataka''] None karnataka_rural"
  "state_rows_where [''karnataka''] None karnataka_urban"
  "state_rows_where [''karnataka''] (Some ''rural'') karnataka_rural"
  "\<not> state_rows_where [''karnataka''] (Some ''rural'') karnataka_urban"
  by (simp_all add: state_rows_where_def karnataka_rural_def karnataka_urban_def
      karnataka_total_def sql_trim_def lower_def lower_char_def)

lemma fetched_examples:
  "fetched [karnataka_rural, karnataka_urban] ''Karnataka'' None = [karnataka_rural, karnataka_urban]"
  "fetched [karnataka_rural, karnataka_urban] ''Karnataka'' (Some ''Rural'') = [karnataka_rural]"
  by (simp_all add: fetched_def name_list_Karnataka tru_arg_def truthy_def sample_matches
      lower_def lower_char_def)

lemma groups_examples:
  "groups state [karnataka_rural, karnataka_urban] = [[karnataka_rural, karnataka_urban]]"
  "groups state [karnataka_rural] = [[karnataka_rural]]"
  by (simp_all add: groups_def first_occ_def sample_fields)

theorem households_blocks_of_first_row_witness:
  "\<not> truthy None \<and> name_list ''Karnataka'' \<noteq> [] \<and>
   fetched [karnataka_rural, karnataka_urban] ''Karnataka'' None \<noteq> [] \<and>
   get_state_households (Inr [karnataka_rural, karnataka_urban]) ''Karnataka'' None =
     Inr [[(''name'', PStr ''KARNATAKA''), (''state'', PInt 29),
           (''households'', PDict [(''rural'', PInt 20), (''urban'', PInt 10)]),
           (''population'', PDict [(''total'', PInt 100), (''male'', PInt 52), (''female'', PInt 48)]),
           (''under_6'', PDict [(''total'', PInt 15), (''male'', PInt 8), (''female'', PInt 7)])]]"
proof -
  have t: "\<not> truthy None"
    by (simp add: truthy_def)
  have n: "name_list ''Karnataka'' \<noteq> []"
    by (simp add: name_list_Karnataka)
  have f: "fetched [karnataka_rural, karnataka_urban] ''Karnataka'' None \<noteq> []"
    by (simp add: fetched_examples)
  show ?thesis
    using households_blocks_of_first_row [OF t n f] t n f
    by (simp add: fetched_examples groups_examples nest_def sample_fields tmf_def)
qed

section \<open>Order of the fetched rows\<close>

lemma map_of_fold_update_rev:
  "map_of (fold (\<lambda>r. AList.update (kf r) (vf r)) xs []) = map_of (rev (map (\<lambda>r. (kf r, vf r)) xs))"
  by (induction xs rule: rev_induct) (simp_all add: update_conv' fun_eq_iff)

lemma map_of_nest_perm:
  assumes "mset grp' = mset grp" and "distinct (map (\<lambda>r. lower (tru r)) grp)"
  shows "map_of (nest block grp') = map_of (nest block grp)"
proof -
  let ?p = "\<lambda>r. (lower (tru r), block r)"
  have "mset (map (\<lambda>r. lower (tru r)) grp') = mset (map (\<lambda>r. lower (tru r)) grp)"
    using assms(1) by simp
  then have d': "distinct (map (\<lambda>r. lower (tru r)) grp')"
    using assms(2) by (metis mset_eq_imp_distinct_iff)
  have s: "set grp' = set grp"
    using assms(1) by (metis set_mset_mset)
  have "map_of (rev (map ?p grp')) = map_of (rev (map ?p grp))"
  proof (rule iffD2 [OF map_of_inject_set])
    show "distinct (map fst (rev (map ?p grp')))"
      using d' by (simp add: rev_map [symmetric] comp_def)
    show "distinct (map fst (rev (map ?p grp)))"
      using assms(2) by (simp add: rev_map [symmetric] comp_def)
    show "set (rev (map ?p grp')) = set (rev (map ?p grp))"
      using s by simp
  qed
  then show ?thesis
    by (simp add: nest_def map_of_fold_update_rev)
qed

lemma map_of_group_rows:
  "map_of (group_rows key_of block rows) k =
     (if k \<in> key_of ` set rows then Some (agg_of block (filter (\<lambda>r. key_of r = k) rows)) else None)"
proof -
  have "group_rows key_of block rows =
      grouped_nf key_of (\<lambda>r. \<lparr>agg_name = name r, agg_state = state r, agg_blocks = []\<rparr>)
        (\<lambda>r obj. obj\<lparr>agg_blocks := AList.update (lower (tru r)) (block r) (agg_blocks obj)\<rparr>) rows"
    unfolding group_rows_def
    by (rule fold_grouped_nf) (simp add: group_step_def Let_def)
  then have "group_rows key_of block rows =
      map (\<lambda>k. (k, agg_of block (filter (\<lambda>r. key_of r = k) rows))) (first_occ (map key_of rows))"
    by (simp add: grouped_nf_def agg_of_def nest_def fold_agg_upd)
  then show ?thesis
    by (simp add: map_of_map_restrict restrict_map_def set_first_occ)
qed

text \<open>
  Claim C7, as amended. Let a sequence of fetched rows hold at most one row for each pair
  of state code and lowercase TRU label, and let rows with the same state code carry the
  same name. Then grouping any permutation of the sequence gives the same mapping from
  state code to accumulated object as grouping the sequence itself, an object being
  taken as its name, its code and the mapping from TRU label to metric block. This holds
  for every metric block, those of \<open>get_state_gender_population\<close> and
  \<open>get_state_workers\<close> among them.
\<close>

theorem grouping_order_independent:
  assumes perm: "mset rows' = mset rows"
    and uniq: "distinct (map (\<lambda>r. (state r, lower (tru r))) rows)"
    and names: "\<forall>r\<in>set rows. \<forall>r'\<in>set rows. state r = state r' \<longrightarrow> name r = name r'"
  shows "map_option agg_view (map_of (group_rows state block rows') k) =
         map_option agg_view (map_of (group_rows state block rows) k)"
proof (cases "k \<in> state ` set rows")
  case False
  moreover have s: "set rows' = set rows"
    using perm by (metis set_mset_mset)
  ultimately show ?thesis
    by (simp add: map_of_group_rows)
next
  case True
  have s: "set rows' = set rows"
    using perm by (metis set_mset_mset)
  let ?g = "filter (\<lambda>r. state r = k) rows" and ?g' = "filter (\<lambda>r. state r = k) rows'"
  have pg: "mset ?g' = mset ?g"
    using perm by simp
  have ne: "?g \<noteq> []" "?g' \<noteq> []"
    using True s by (auto simp: filter_empty_conv)
  have "hd ?g \<in> set ?g"
    using ne(1) by (rule hd_in_set)
  moreover have "hd ?g' \<in> set ?g'"
    using ne(2) by (rule hd_in_set)
  ultimately have hs: "hd ?g \<in> set rows" "hd ?g' \<in> set rows" "state (hd ?g) = k" "state (hd ?g') = k"
    using s by auto
  with names have nm: "name (hd ?g') = name (hd ?g)"
    by metis
  have "distinct (map (\<lambda>r. (state r, lower (tru r))) ?g)"
    using uniq by (rule distinct_map_filter)
  then have dg: "distinct (map (\<lambda>r. lower (tru r)) ?g)"
    by (auto simp: distinct_map inj_on_def)
  have "map_of (nest block ?g') = map_of (nest block ?g)"
    by (rule map_of_nest_perm [OF pg dg])
  with nm hs True s show ?thesis
    by (simp add: map_of_group_rows agg_view_def agg_of_def)
qed

lemma alt_fields:
  "state karnataka_rural_alt = 29" "name karnataka_rural_alt = ''Karnataka''"
  "lower (tru karnataka_rural_alt) = ''rural''"
  by (simp_all add: karnataka_rural_alt_def karnataka_rural_def karnataka_total_def lower_def
      lower_char_def)

theorem grouping_order_independent_witness:
  "mset [karnataka_urban, karnataka_rural] = mset [karnataka_rural, karnataka_urban] \<and>
   distinct (map (\<lambda>r. (state r, lower (tru r))) [karnataka_rural, karnataka_urban]) \<and>
   map_option agg_view
     (map_of (group_rows state gender_block [karnataka_urban, karnataka_rural]) 29) =
   map_option agg_view
     (map_of (group_rows state gender_block [karnataka_rural, karnataka_urban]) 29)"
proof -
  have perm: "mset [karnataka_urban, karnataka_rural] = mset [karnataka_rural, karnataka_urban]"
    by (simp add: add.commute)
  have uniq: "distinct (map (\<lambda>r. (state r, lower (tru r))) [karnataka_rural, karnataka_urban])"
    by (simp add: sample_fields)
  have names: "\<forall>r\<in>set [karnataka_rural, karnataka_urban].
      \<forall>r'\<in>set [karnataka_rural, karnataka_urban]. state r = state r' \<longrightarrow> name r = name r'"
    by (simp add: sample_fields)
  from grouping_order_independent [OF perm uniq names, of gender_block 29] perm uniq
  show ?thesis
    by blast
qed

text \<open>
  Claim C7 as stated fails: the two rows satisfy the uniqueness invariant (one is the
  rural, the other the urban row of state 29) and both match the name \<open>karnataka\<close>, but
  they spell the name differently; the accumulated object takes the name of the row that
  comes first, so the reversed sequence gives another object for the key 29.
\<close>

theorem grouping_order_counterexample:
  "distinct (map (\<lambda>r. (state r, lower (tru r))) [karnataka_rural_alt, karnataka_urban]) \<and>
   map_option agg_name
     (map_of (group_rows state gender_block [karnataka_rural_alt, karnataka_urban]) 29) =
     Some ''Karnataka'' \<and>
   map_option agg_name
     (map_of (group_rows state gender_block (rev [karnataka_rural_alt, karnataka_urban])) 29) =
     Some ''KARNATAKA''"
  by (simp add: map_of_group_rows agg_of_def sample_fields alt_fields)

section \<open>Flat and nested metric blocks\<close>





















end
